theory Spec2Isabelle
  imports Main "HOL-Library.Sublist"
begin

section \<open>The authorization script \<open>debug.py\<close>\<close>

text \<open>
  The script is one module body of five statements:
  \<^verbatim>\<open>
  SCOPES = ['https://www.googleapis.com/auth/calendar']
  flow = InstalledAppFlow.from_client_secrets_file('credentials.json', SCOPES)
  creds = flow.run_local_server(port=0)
  print('Refresh Token:', creds.refresh_token)
  with open('token.json', 'w') as token:
      token.write(creds.to_json())
  \<close>
  Everything it calls lives outside the repository (the OAuth library, the operating
  system), so those calls are parameters of the model: a \<open>world\<close> answers each of them,
  with a raised exception as the left summand. The process state is passed explicitly and
  every call the script makes is appended, with its arguments, to a trace.
\<close>

subsection \<open>Values, exceptions, events\<close>

type_synonym path = string

text \<open>A raised Python exception, by the name of its class.\<close>

datatype exn = Exn string

text \<open>The values \<open>creds.refresh_token\<close> can hold: a string or \<open>None\<close>.\<close>

datatype pyval = PyNone | PyStr string

datatype event =
    FromClientSecretsFile path "string list"
  | RunLocalServer int
  | Print string
  | Open path string
  | Write path string
  | Close path

text \<open>
  The process: the command line and the environment it was started with, what it has
  printed, the files on disk (as text), the file objects it holds open, and the calls made.
\<close>

record process =
  argv :: "string list"
  environ :: "(string \<times> string) list"
  stdout :: string
  files :: "path \<rightharpoonup> string"
  opened :: "path list"
  trace :: "event list"

text \<open>
  The outside world. \<open>'f\<close> is the library's flow object and \<open>'c\<close> its credential object;
  \<open>refresh_token\<close> and \<open>to_json\<close> are the attribute and the method of the credential the
  script uses. \<open>open_error\<close> and \<open>write_error\<close> say whether the operating system refuses
  an \<open>open(path, mode)\<close> or a \<open>write\<close> of some text to an open file.
\<close>

record ('f, 'c) world =
  from_client_secrets_file :: "path \<Rightarrow> string list \<Rightarrow> exn + 'f"
  run_local_server :: "'f \<Rightarrow> int \<Rightarrow> exn + 'c"
  refresh_token :: "'c \<Rightarrow> pyval"
  to_json :: "'c \<Rightarrow> string"
  open_error :: "path \<Rightarrow> string \<Rightarrow> exn option"
  write_error :: "path \<Rightarrow> string \<Rightarrow> exn option"

subsection \<open>The Python primitives the script uses\<close>

text \<open>
  The calls that can raise in the model are the four the script depends on: the flow
  constructor, \<open>run_local_server\<close>, \<open>open\<close> and \<open>write\<close>. Reading the attribute
  \<open>refresh_token\<close>, calling \<open>to_json\<close>, printing and closing the file are taken to
  return; a refused \<open>write\<close> leaves the file as \<open>open\<close> left it. A \<open>print\<close> that can
  raise, because standard output cannot encode the text, is modelled further down.
\<close>

definition log :: "event \<Rightarrow> process \<Rightarrow> process" where
  "log ev s = s\<lparr>trace := trace s @ [ev]\<rparr>"

fun py_str :: "pyval \<Rightarrow> string" where
  "py_str PyNone = ''None''"
| "py_str (PyStr v) = v"

fun join_sep :: "string \<Rightarrow> string list \<Rightarrow> string" where
  "join_sep sep [] = []"
| "join_sep sep [x] = x"
| "join_sep sep (x # y # ys) = x @ sep @ join_sep sep (y # ys)"

text \<open>\<open>print(*args)\<close>: the arguments through \<open>str\<close>, joined by one space, then a newline.\<close>

definition py_print :: "pyval list \<Rightarrow> process \<Rightarrow> process" where
  "py_print args s =
     (let line = join_sep '' '' (map py_str args) @ [CHR 0x0A]
      in log (Print line) (s\<lparr>stdout := stdout s @ line\<rparr>))"

text \<open>
  \<open>open(p, m)\<close>: mode \<open>'w'\<close> creates the file or truncates it, mode \<open>'a'\<close> creates it or
  keeps it; any other mode leaves the disk alone.
\<close>

definition py_open ::
  "('f, 'c) world \<Rightarrow> path \<Rightarrow> string \<Rightarrow> process \<Rightarrow> (exn + path) \<times> process" where
  "py_open w p m s =
     (let s1 = log (Open p m) s in
      case open_error w p m of
        Some e \<Rightarrow> (Inl e, s1)
      | None \<Rightarrow>
          (Inr p,
           s1\<lparr>files :=
                 (if m = ''w'' then (files s1)(p \<mapsto> [])
                  else if m = ''a''
                    then (files s1)(p \<mapsto> (case files s1 p of None \<Rightarrow> [] | Some old \<Rightarrow> old))
                  else files s1),
               opened := p # opened s1\<rparr>))"

text \<open>\<open>f.write(d)\<close>: the text goes to the end of the file; the result is its length.\<close>

definition py_write ::
  "('f, 'c) world \<Rightarrow> path \<Rightarrow> string \<Rightarrow> process \<Rightarrow> (exn + nat) \<times> process" where
  "py_write w h d s =
     (let s1 = log (Write h d) s in
      case write_error w h d of
        Some e \<Rightarrow> (Inl e, s1)
      | None \<Rightarrow>
          (Inr (length d),
           s1\<lparr>files := (files s1)(h \<mapsto> (case files s1 h of None \<Rightarrow> d | Some old \<Rightarrow> old @ d))\<rparr>))"

definition py_close :: "path \<Rightarrow> process \<Rightarrow> process" where
  "py_close h s = log (Close h) (s\<lparr>opened := remove1 h (opened s)\<rparr>)"

text \<open>
  \<open>with open(p, m) as f: body\<close>: when \<open>open\<close> raises, the body does not run; otherwise
  the file is closed on the way out, whether the body returned or raised.
\<close>

definition with_open ::
  "('f, 'c) world \<Rightarrow> path \<Rightarrow> string \<Rightarrow> (path \<Rightarrow> process \<Rightarrow> (exn + 'a) \<times> process) \<Rightarrow>
     process \<Rightarrow> (exn + 'a) \<times> process" where
  "with_open w p m body s =
     (case py_open w p m s of
        (Inl e, s1) \<Rightarrow> (Inl e, s1)
      | (Inr f, s1) \<Rightarrow> (case body f s1 of (r, s2) \<Rightarrow> (r, py_close f s2)))"

subsection \<open>The module body\<close>

definition SCOPES :: "string list" where
  "SCOPES = [''https://www.googleapis.com/auth/calendar'']"

definition debug_module :: "('f, 'c) world \<Rightarrow> process \<Rightarrow> (exn + unit) \<times> process" where
  "debug_module w s0 =
     (let s1 = log (FromClientSecretsFile ''credentials.json'' SCOPES) s0 in
      case from_client_secrets_file w ''credentials.json'' SCOPES of
        Inl e \<Rightarrow> (Inl e, s1)
      | Inr flow \<Rightarrow>
          (let s2 = log (RunLocalServer 0) s1 in
           case run_local_server w flow 0 of
             Inl e \<Rightarrow> (Inl e, s2)
           | Inr creds \<Rightarrow>
               (let s3 = py_print [PyStr ''Refresh Token:'', refresh_token w creds] s2 in
                with_open w ''token.json'' ''w''
                  (\<lambda>token s.
                     case py_write w token (to_json w creds) s of
                       (Inl e, s') \<Rightarrow> (Inl e, s')
                     | (Inr n, s') \<Rightarrow> (Inr (), s'))
                  s3)))"

text \<open>The calls one run adds to the trace.\<close>

definition events_of :: "('f, 'c) world \<Rightarrow> process \<Rightarrow> event list" where
  "events_of w s = drop (length (trace s)) (trace (snd (debug_module w s)))"

text \<open>
  Whether a run called \<open>write\<close> on \<open>token.json\<close>, be the write accepted or refused.
\<close>

fun is_token_write :: "event \<Rightarrow> bool" where
  "is_token_write (Write p d) = (p = ''token.json'')"
| "is_token_write _ = False"

definition writes_credential_file :: "('f, 'c) world \<Rightarrow> process \<Rightarrow> bool" where
  "writes_credential_file w s = list_ex is_token_write (events_of w s)"

fun is_construct :: "event \<Rightarrow> bool" where
  "is_construct (FromClientSecretsFile p sc) = True"
| "is_construct _ = False"

text \<open>The kind of call an event is, forgetting its arguments.\<close>

datatype step = ConstructFlow | RunServer | PrintToken | OpenFile | WriteFile | CloseFile

fun step_of :: "event \<Rightarrow> step" where
  "step_of (FromClientSecretsFile p sc) = ConstructFlow"
| "step_of (RunLocalServer port) = RunServer"
| "step_of (Print l) = PrintToken"
| "step_of (Open p m) = OpenFile"
| "step_of (Write p d) = WriteFile"
| "step_of (Close p) = CloseFile"

definition all_steps :: "step list" where
  "all_steps = [ConstructFlow, RunServer, PrintToken, OpenFile, WriteFile, CloseFile]"

text \<open>The line the fourth statement prints for a refresh-token value.\<close>

definition print_line :: "pyval \<Rightarrow> string" where
  "print_line v = ''Refresh Token: '' @ py_str v @ [CHR 0x0A]"

subsection \<open>Standard output as an encoded text stream\<close>







subsection \<open>Concrete worlds\<close>

text \<open>
  A world in which everything works: the secrets file is found under the name and scope
  the script asks for, the user consents, and the disk accepts the file. Credentials are
  a pair of the refresh token and the serialized form.
\<close>

definition good_world :: "(unit, pyval \<times> string) world" where
  "good_world =
     \<lparr>from_client_secrets_file =
        (\<lambda>p sc. if p = ''credentials.json'' \<and> sc = [''https://www.googleapis.com/auth/calendar'']
                 then Inr () else Inl (Exn ''FileNotFoundError'')),
      run_local_server = (\<lambda>f port. Inr (PyStr ''1//0gRt'', ''{refresh_token: 1//0gRt}'')),
      refresh_token = fst,
      to_json = snd,
      open_error = (\<lambda>p m. None),
      write_error = (\<lambda>h d. None)\<rparr>"

text \<open>The same with no secrets file, a cancelled consent, a read-only directory, a full disk.\<close>

definition no_secrets_world :: "(unit, pyval \<times> string) world" where
  "no_secrets_world =
     good_world\<lparr>from_client_secrets_file := (\<lambda>p sc. Inl (Exn ''FileNotFoundError''))\<rparr>"

definition cancelled_world :: "(unit, pyval \<times> string) world" where
  "cancelled_world =
     good_world\<lparr>run_local_server := (\<lambda>f port. Inl (Exn ''AccessDeniedError''))\<rparr>"

definition read_only_world :: "(unit, pyval \<times> string) world" where
  "read_only_world = good_world\<lparr>open_error := (\<lambda>p m. Some (Exn ''PermissionError''))\<rparr>"

definition disk_full_world :: "(unit, pyval \<times> string) world" where
  "disk_full_world = good_world\<lparr>write_error := (\<lambda>h d. Some (Exn ''OSError''))\<rparr>"

text \<open>
  A directory in which the secrets file is missing under the name the script uses,
  while any other name or scope list would have been served.
\<close>

definition other_names_world :: "(unit, pyval \<times> string) world" where
  "other_names_world =
     good_world\<lparr>from_client_secrets_file :=
        (\<lambda>p sc. if p = ''credentials.json'' \<and> sc = [''https://www.googleapis.com/auth/calendar'']
                 then Inl (Exn ''FileNotFoundError'') else Inr ())\<rparr>"


text \<open>The flow succeeds but hands back a credential without a refresh token.\<close>

definition no_refresh_world :: "(unit, pyval \<times> string) world" where
  "no_refresh_world =
     good_world\<lparr>run_local_server := (\<lambda>f port. Inr (PyNone, ''{refresh_token: null}''))\<rparr>"

text \<open>A process started in a directory that already holds a \<open>token.json\<close> and a note.\<close>

definition start :: process where
  "start =
     \<lparr>argv = [''debug.py''],
      environ = [(''HOME'', ''/root'')],
      stdout = [],
      files = [''token.json'' \<mapsto> ''stale'', ''notes.txt'' \<mapsto> ''keep''],
      opened = [],
      trace = []\<rparr>"


section \<open>What one run does\<close>

text \<open>
  The module body has five possible outcomes, by the first call that raises. Each is
  computed once here; the properties below are read off these equations.
\<close>

lemma py_print_refresh:
  "py_print [PyStr ''Refresh Token:'', v] s =
     log (Print (print_line v)) (s\<lparr>stdout := stdout s @ print_line v\<rparr>)"
  by (simp add: py_print_def print_line_def Let_def)

lemma debug_module_construct_fails:
  assumes "from_client_secrets_file w ''credentials.json'' SCOPES = Inl e"
  shows "debug_module w s =
           (Inl e, s\<lparr>trace := trace s @ [FromClientSecretsFile ''credentials.json'' SCOPES]\<rparr>)"
  using assms by (simp add: debug_module_def log_def Let_def)

lemma debug_module_server_fails:
  assumes "from_client_secrets_file w ''credentials.json'' SCOPES = Inr flow"
      and "run_local_server w flow 0 = Inl e"
  shows "debug_module w s =
           (Inl e, s\<lparr>trace := trace s @ [FromClientSecretsFile ''credentials.json'' SCOPES,
                                           RunLocalServer 0]\<rparr>)"
  using assms by (simp add: debug_module_def log_def Let_def)

lemma debug_module_open_fails:
  assumes "from_client_secrets_file w ''credentials.json'' SCOPES = Inr flow"
      and "run_local_server w flow 0 = Inr creds"
      and "open_error w ''token.json'' ''w'' = Some e"
  shows "debug_module w s =
           (Inl e, s\<lparr>stdout := stdout s @ print_line (refresh_token w creds),
                      trace := trace s @ [FromClientSecretsFile ''credentials.json'' SCOPES,
                                           RunLocalServer 0,
                                           Print (print_line (refresh_token w creds)),
                                           Open ''token.json'' ''w'']\<rparr>)"
  using assms
  by (simp add: debug_module_def py_print_refresh with_open_def py_open_def log_def Let_def)

lemma debug_module_write_fails:
  assumes "from_client_secrets_file w ''credentials.json'' SCOPES = Inr flow"
      and "run_local_server w flow 0 = Inr creds"
      and "open_error w ''token.json'' ''w'' = None"
      and "write_error w ''token.json'' (to_json w creds) = Some e"
  shows "debug_module w s =
           (Inl e, s\<lparr>stdout := stdout s @ print_line (refresh_token w creds),
                      files := (files s)(''token.json'' \<mapsto> []),
                      trace := trace s @ [FromClientSecretsFile ''credentials.json'' SCOPES,
                                           RunLocalServer 0,
                                           Print (print_line (refresh_token w creds)),
                                           Open ''token.json'' ''w'',
                                           Write ''token.json'' (to_json w creds),
                                           Close ''token.json'']\<rparr>)"
  using assms
  by (simp add: debug_module_def py_print_refresh with_open_def py_open_def py_write_def
      py_close_def log_def Let_def)

lemma debug_module_succeeds:
  assumes "from_client_secrets_file w ''credentials.json'' SCOPES = Inr flow"
      and "run_local_server w flow 0 = Inr creds"
      and "open_error w ''token.json'' ''w'' = None"
      and "write_error w ''token.json'' (to_json w creds) = None"
  shows "debug_module w s =
           (Inr (), s\<lparr>stdout := stdout s @ print_line (refresh_token w creds),
                      files := (files s)(''token.json'' \<mapsto> to_json w creds),
                      trace := trace s @ [FromClientSecretsFile ''credentials.json'' SCOPES,
                                           RunLocalServer 0,
                                           Print (print_line (refresh_token w creds)),
                                           Open ''token.json'' ''w'',
                                           Write ''token.json'' (to_json w creds),
                                           Close ''token.json'']\<rparr>)"
  using assms
  by (simp add: debug_module_def py_print_refresh with_open_def py_open_def py_write_def
      py_close_def log_def Let_def)

text \<open>Every run is one of the five.\<close>

lemma debug_module_cases:
  obtains
    (construct_fails) e where
      "from_client_secrets_file w ''credentials.json'' SCOPES = Inl e"
  | (server_fails) flow e where
      "from_client_secrets_file w ''credentials.json'' SCOPES = Inr flow"
      "run_local_server w flow 0 = Inl e"
  | (open_fails) flow creds e where
      "from_client_secrets_file w ''credentials.json'' SCOPES = Inr flow"
      "run_local_server w flow 0 = Inr creds"
      "open_error w ''token.json'' ''w'' = Some e"
  | (write_fails) flow creds e where
      "from_client_secrets_file w ''credentials.json'' SCOPES = Inr flow"
      "run_local_server w flow 0 = Inr creds"
      "open_error w ''token.json'' ''w'' = None"
      "write_error w ''token.json'' (to_json w creds) = Some e"
  | (succeeds) flow creds where
      "from_client_secrets_file w ''credentials.json'' SCOPES = Inr flow"
      "run_local_server w flow 0 = Inr creds"
      "open_error w ''token.json'' ''w'' = None"
      "write_error w ''token.json'' (to_json w creds) = None"
proof (cases "from_client_secrets_file w ''credentials.json'' SCOPES")
  case (Inl e)
  then show ?thesis by (rule construct_fails)
next
  case flow: (Inr flow)
  show ?thesis
  proof (cases "run_local_server w flow 0")
    case (Inl e)
    with flow show ?thesis by (rule server_fails)
  next
    case creds: (Inr creds)
    show ?thesis
    proof (cases "open_error w ''token.json'' ''w''")
      case (Some e)
      with flow creds show ?thesis by (rule open_fails)
    next
      case no_open_error: None
      show ?thesis
      proof (cases "write_error w ''token.json'' (to_json w creds)")
        case (Some e)
        with flow creds no_open_error show ?thesis by (rule write_fails)
      next
        case None
        with flow creds no_open_error show ?thesis by (rule succeeds)
      qed
    qed
  qed
qed

text \<open>The five outcomes as lists of calls.\<close>

lemma events_construct_fails:
  assumes "from_client_secrets_file w ''credentials.json'' SCOPES = Inl e"
  shows "events_of w s = [FromClientSecretsFile ''credentials.json'' SCOPES]"
  by (simp add: events_of_def debug_module_construct_fails [OF assms])

lemma events_server_fails:
  assumes "from_client_secrets_file w ''credentials.json'' SCOPES = Inr flow"
      and "run_local_server w flow 0 = Inl e"
  shows "events_of w s = [FromClientSecretsFile ''credentials.json'' SCOPES, RunLocalServer 0]"
  by (simp add: events_of_def debug_module_server_fails [OF assms])

lemma events_open_fails:
  assumes "from_client_secrets_file w ''credentials.json'' SCOPES = Inr flow"
      and "run_local_server w flow 0 = Inr creds"
      and "open_error w ''token.json'' ''w'' = Some e"
  shows "events_of w s =
           [FromClientSecretsFile ''credentials.json'' SCOPES, RunLocalServer 0,
            Print (print_line (refresh_token w creds)), Open ''token.json'' ''w'']"
  by (simp add: events_of_def debug_module_open_fails [OF assms])

lemma events_opened:
  assumes "from_client_secrets_file w ''credentials.json'' SCOPES = Inr flow"
      and "run_local_server w flow 0 = Inr creds"
      and "open_error w ''token.json'' ''w'' = None"
  shows "events_of w s =
           [FromClientSecretsFile ''credentials.json'' SCOPES, RunLocalServer 0,
            Print (print_line (refresh_token w creds)), Open ''token.json'' ''w'',
            Write ''token.json'' (to_json w creds), Close ''token.json'']"
proof (cases "write_error w ''token.json'' (to_json w creds)")
  case None
  show ?thesis
    by (simp add: events_of_def debug_module_succeeds [OF assms None])
next
  case (Some e)
  show ?thesis
    by (simp add: events_of_def debug_module_write_fails [OF assms Some])
qed

lemma stdout_after_credentials:
  assumes "from_client_secrets_file w ''credentials.json'' SCOPES = Inr flow"
      and "run_local_server w flow 0 = Inr creds"
  shows "stdout (snd (debug_module w s)) = stdout s @ print_line (refresh_token w creds)"
proof (cases "open_error w ''token.json'' ''w''")
  case (Some e)
  show ?thesis by (simp add: debug_module_open_fails [OF assms Some])
next
  case no_open_error: None
  show ?thesis
  proof (cases "write_error w ''token.json'' (to_json w creds)")
    case (Some e)
    show ?thesis by (simp add: debug_module_write_fails [OF assms no_open_error Some])
  next
    case None
    show ?thesis by (simp add: debug_module_succeeds [OF assms no_open_error None])
  qed
qed

lemma good_world_flow:
  "from_client_secrets_file good_world ''credentials.json'' SCOPES = Inr ()"
  by (simp add: good_world_def SCOPES_def)

lemma good_world_creds:
  "run_local_server good_world () 0 = Inr (PyStr ''1//0gRt'', ''{refresh_token: 1//0gRt}'')"
  by (simp add: good_world_def)

lemma good_world_open: "open_error good_world p m = None"
  by (simp add: good_world_def)

lemma good_world_write: "write_error good_world h d = None"
  by (simp add: good_world_def)

lemma good_world_refresh_token: "refresh_token good_world c = fst c"
  by (simp add: good_world_def)

lemma good_world_to_json: "to_json good_world c = snd c"
  by (simp add: good_world_def)

lemmas good_world_simps =
  good_world_open good_world_write good_world_refresh_token good_world_to_json

lemmas good_world_run =
  debug_module_succeeds [OF good_world_flow good_world_creds good_world_open good_world_write]

lemma no_secrets_world_flow:
  "from_client_secrets_file no_secrets_world p sc = Inl (Exn ''FileNotFoundError'')"
  by (simp add: no_secrets_world_def)

lemma cancelled_world_flow:
  "from_client_secrets_file cancelled_world ''credentials.json'' SCOPES = Inr ()"
  by (simp add: cancelled_world_def good_world_def SCOPES_def)

lemma cancelled_world_creds:
  "run_local_server cancelled_world f port = Inl (Exn ''AccessDeniedError'')"
  by (simp add: cancelled_world_def)

lemma read_only_world_flow:
  "from_client_secrets_file read_only_world ''credentials.json'' SCOPES = Inr ()"
  by (simp add: read_only_world_def good_world_def SCOPES_def)

lemma read_only_world_creds:
  "run_local_server read_only_world () 0 = Inr (PyStr ''1//0gRt'', ''{refresh_token: 1//0gRt}'')"
  by (simp add: read_only_world_def good_world_def)

lemma read_only_world_open: "open_error read_only_world p m = Some (Exn ''PermissionError'')"
  by (simp add: read_only_world_def)

lemma disk_full_world_flow:
  "from_client_secrets_file disk_full_world ''credentials.json'' SCOPES = Inr ()"
  by (simp add: disk_full_world_def good_world_def SCOPES_def)

lemma disk_full_world_creds:
  "run_local_server disk_full_world () 0 = Inr (PyStr ''1//0gRt'', ''{refresh_token: 1//0gRt}'')"
  by (simp add: disk_full_world_def good_world_def)

lemma disk_full_world_open: "open_error disk_full_world p m = None"
  by (simp add: disk_full_world_def good_world_def)

lemma disk_full_world_write: "write_error disk_full_world h d = Some (Exn ''OSError'')"
  by (simp add: disk_full_world_def)

lemma disk_full_world_to_json: "to_json disk_full_world c = snd c"
  by (simp add: disk_full_world_def good_world_def)

lemma no_refresh_world_flow:
  "from_client_secrets_file no_refresh_world ''credentials.json'' SCOPES = Inr ()"
  by (simp add: no_refresh_world_def good_world_def SCOPES_def)

lemma no_refresh_world_creds:
  "run_local_server no_refresh_world () 0 = Inr (PyNone, ''{refresh_token: null}'')"
  by (simp add: no_refresh_world_def)

lemma no_refresh_world_simps:
  "open_error no_refresh_world p m = None"
  "write_error no_refresh_world h d = None"
  "refresh_token no_refresh_world c = fst c"
  "to_json no_refresh_world c = snd c"
  by (simp_all add: no_refresh_world_def good_world_def)

text \<open>A run depends on the world only through the answers it asks for.\<close>

lemma debug_module_cong:
  assumes "from_client_secrets_file w' ''credentials.json'' SCOPES =
             from_client_secrets_file w ''credentials.json'' SCOPES"
      and "run_local_server w' = run_local_server w"
      and "refresh_token w' = refresh_token w"
      and "to_json w' = to_json w"
      and "open_error w' = open_error w"
      and "write_error w' = write_error w"
  shows "debug_module w' s = debug_module w s"
proof (cases rule: debug_module_cases [of w])
  case (construct_fails e)
  from construct_fails assms(1)
  have "from_client_secrets_file w' ''credentials.json'' SCOPES = Inl e" by simp
  then show ?thesis
    by (simp add: debug_module_construct_fails construct_fails)
next
  case (server_fails flow e)
  from server_fails assms(1,2)
  have "from_client_secrets_file w' ''credentials.json'' SCOPES = Inr flow"
    "run_local_server w' flow 0 = Inl e" by simp_all
  then show ?thesis
    by (simp add: debug_module_server_fails [OF server_fails] debug_module_server_fails)
next
  case (open_fails flow creds e)
  from open_fails assms
  have a: "from_client_secrets_file w' ''credentials.json'' SCOPES = Inr flow"
    "run_local_server w' flow 0 = Inr creds"
    "open_error w' ''token.json'' ''w'' = Some e" by simp_all
  show ?thesis
    by (simp add: debug_module_open_fails [OF open_fails] debug_module_open_fails [OF a] assms(3))
next
  case (write_fails flow creds e)
  from write_fails assms
  have a: "from_client_secrets_file w' ''credentials.json'' SCOPES = Inr flow"
    "run_local_server w' flow 0 = Inr creds"
    "open_error w' ''token.json'' ''w'' = None"
    "write_error w' ''token.json'' (to_json w' creds) = Some e" by simp_all
  show ?thesis
    by (simp add: debug_module_write_fails [OF write_fails] debug_module_write_fails [OF a]
        assms(3,4))
next
  case (succeeds flow creds)
  from succeeds assms
  have a: "from_client_secrets_file w' ''credentials.json'' SCOPES = Inr flow"
    "run_local_server w' flow 0 = Inr creds"
    "open_error w' ''token.json'' ''w'' = None"
    "write_error w' ''token.json'' (to_json w' creds) = None" by simp_all
  show ?thesis
    by (simp add: debug_module_succeeds [OF succeeds] debug_module_succeeds [OF a] assms(3,4))
qed

lemma first_event:
  "take 1 (events_of w s) =
     [FromClientSecretsFile ''credentials.json'' [''https://www.googleapis.com/auth/calendar'']] \<and>
   filter is_construct (events_of w s) =
     [FromClientSecretsFile ''credentials.json'' [''https://www.googleapis.com/auth/calendar'']]"
proof (cases rule: debug_module_cases [of w])
  case (construct_fails e)
  then show ?thesis
    by (simp add: events_construct_fails [OF construct_fails]) (simp add: SCOPES_def)
next
  case (server_fails flow e)
  then show ?thesis
    by (simp add: events_server_fails [OF server_fails]) (simp add: SCOPES_def)
next
  case (open_fails flow creds e)
  then show ?thesis
    by (simp add: events_open_fails [OF open_fails]) (simp add: SCOPES_def)
next
  case (write_fails flow creds e)
  then show ?thesis
    by (simp add: events_opened [OF write_fails(1-3)]) (simp add: SCOPES_def)
next
  case (succeeds flow creds)
  then show ?thesis
    by (simp add: events_opened [OF succeeds(1-3)]) (simp add: SCOPES_def)
qed

lemma other_names_world_flow:
  "from_client_secrets_file other_names_world ''credentials.json''
     [''https://www.googleapis.com/auth/calendar''] = Inl (Exn ''FileNotFoundError'')"
  by (simp add: other_names_world_def)











section \<open>The properties\<close>

text \<open>
  C1. Whenever the authorization flow returns a credential object whose refresh token is
  the string \<open>v\<close>, the run adds to standard output exactly the label \<open>Refresh Token:\<close>,
  the separating space of \<open>print\<close>, \<open>v\<close> itself and the closing newline.
\<close>

theorem prints_refresh_token:
  assumes "from_client_secrets_file w ''credentials.json'' SCOPES = Inr flow"
      and "run_local_server w flow 0 = Inr creds"
      and "refresh_token w creds = PyStr v"
  shows "stdout (snd (debug_module w s)) = stdout s @ ''Refresh Token: '' @ v @ [CHR 0x0A]"
  using stdout_after_credentials [OF assms(1,2), of s] assms(3)
  by (simp add: print_line_def)

theorem prints_refresh_token_witness:
  "refresh_token good_world (PyStr ''1//0gRt'', ''{refresh_token: 1//0gRt}'') = PyStr ''1//0gRt'' \<and>
   stdout (snd (debug_module good_world start)) = ''Refresh Token: 1//0gRt'' @ [CHR 0x0A]"
proof -
  have rt: "refresh_token good_world (PyStr ''1//0gRt'', ''{refresh_token: 1//0gRt}'') = PyStr ''1//0gRt''"
    by (simp add: good_world_simps)
  from prints_refresh_token [OF good_world_flow good_world_creds rt, of start] rt
  show ?thesis by (simp add: start_def)
qed

text \<open>
  C2. In every run that ends normally, the flow returned a credential object and
  \<open>token.json\<close> holds exactly the string its \<open>to_json\<close> returned, with nothing before
  or after it.
\<close>

theorem written_file_is_serialized_form:
  assumes "fst (debug_module w s) = Inr ()"
  shows "\<exists>flow creds.
           from_client_secrets_file w ''credentials.json'' SCOPES = Inr flow \<and>
           run_local_server w flow 0 = Inr creds \<and>
           files (snd (debug_module w s)) ''token.json'' = Some (to_json w creds)"
proof (cases rule: debug_module_cases [of w])
  case (construct_fails e)
  with assms show ?thesis by (simp add: debug_module_construct_fails)
next
  case (server_fails flow e)
  with assms show ?thesis by (simp add: debug_module_server_fails)
next
  case (open_fails flow creds e)
  with assms show ?thesis by (simp add: debug_module_open_fails)
next
  case (write_fails flow creds e)
  with assms show ?thesis by (simp add: debug_module_write_fails)
next
  case (succeeds flow creds)
  then show ?thesis by (simp add: debug_module_succeeds)
qed

theorem written_file_is_serialized_form_witness:
  "fst (debug_module good_world start) = Inr () \<and>
   files (snd (debug_module good_world start)) ''token.json'' = Some ''{refresh_token: 1//0gRt}''"
proof -
  have ok: "fst (debug_module good_world start) = Inr ()"
    by (simp add: good_world_run)
  from written_file_is_serialized_form [OF ok] obtain flow creds where
    "run_local_server good_world flow 0 = Inr creds"
    "files (snd (debug_module good_world start)) ''token.json'' = Some (to_json good_world creds)"
    by blast
  with ok show ?thesis by (auto simp: good_world_creds good_world_simps)
qed

text \<open>
  C3. Writing the credential file is not part of every run in which the flow returns a
  credential object: there is such a run in which \<open>write\<close> is never called on
  \<open>token.json\<close> and every file is as it was. It is the run in which the directory
  refuses \<open>open('token.json', 'w')\<close>, so that the body of the \<open>with\<close> is not reached.
\<close>

theorem credential_file_not_always_written:
  "\<exists>(w :: (unit, pyval \<times> string) world) s flow creds.
      from_client_secrets_file w ''credentials.json'' SCOPES = Inr flow \<and>
      run_local_server w flow 0 = Inr creds \<and>
      \<not> writes_credential_file w s \<and>
      files (snd (debug_module w s)) = files s"
proof -
  have silent: "\<not> writes_credential_file read_only_world start"
    by (simp add: writes_credential_file_def
        events_open_fails [OF read_only_world_flow read_only_world_creds read_only_world_open])
  have untouched: "files (snd (debug_module read_only_world start)) = files start"
    by (simp add:
        debug_module_open_fails [OF read_only_world_flow read_only_world_creds read_only_world_open])
  from read_only_world_flow read_only_world_creds silent untouched
  have "from_client_secrets_file read_only_world ''credentials.json'' SCOPES = Inr () \<and>
        run_local_server read_only_world () 0 =
          Inr (PyStr ''1//0gRt'', ''{refresh_token: 1//0gRt}'') \<and>
        \<not> writes_credential_file read_only_world start \<and>
        files (snd (debug_module read_only_world start)) = files start"
    by (intro conjI)
  then show ?thesis
    by (intro exI)
qed

text \<open>
  C4. Nothing is caught. When the flow cannot be built from the secrets file, when the
  local server or the consent fails, when the output file cannot be opened, or when the
  write is refused, the run ends with that very exception; in the first two cases it has
  printed nothing and touched no file.
\<close>

theorem failures_propagate:
  "(from_client_secrets_file w ''credentials.json'' SCOPES = Inl e \<longrightarrow>
      fst (debug_module w s) = Inl e \<and>
      stdout (snd (debug_module w s)) = stdout s \<and> files (snd (debug_module w s)) = files s) \<and>
   (from_client_secrets_file w ''credentials.json'' SCOPES = Inr flow \<and>
    run_local_server w flow 0 = Inl e \<longrightarrow>
      fst (debug_module w s) = Inl e \<and>
      stdout (snd (debug_module w s)) = stdout s \<and> files (snd (debug_module w s)) = files s) \<and>
   (from_client_secrets_file w ''credentials.json'' SCOPES = Inr flow \<and>
    run_local_server w flow 0 = Inr creds \<and>
    open_error w ''token.json'' ''w'' = Some e \<longrightarrow>
      fst (debug_module w s) = Inl e \<and> files (snd (debug_module w s)) = files s) \<and>
   (from_client_secrets_file w ''credentials.json'' SCOPES = Inr flow \<and>
    run_local_server w flow 0 = Inr creds \<and>
    open_error w ''token.json'' ''w'' = None \<and>
    write_error w ''token.json'' (to_json w creds) = Some e \<longrightarrow>
      fst (debug_module w s) = Inl e)"
  by (simp add: debug_module_construct_fails debug_module_server_fails
      debug_module_open_fails debug_module_write_fails)

theorem failures_propagate_witness:
  "fst (debug_module no_secrets_world start) = Inl (Exn ''FileNotFoundError'') \<and>
   stdout (snd (debug_module no_secrets_world start)) = [] \<and>
   fst (debug_module cancelled_world start) = Inl (Exn ''AccessDeniedError'') \<and>
   stdout (snd (debug_module cancelled_world start)) = [] \<and>
   files (snd (debug_module cancelled_world start)) ''token.json'' = Some ''stale'' \<and>
   fst (debug_module read_only_world start) = Inl (Exn ''PermissionError'') \<and>
   fst (debug_module disk_full_world start) = Inl (Exn ''OSError'')"
  using
    failures_propagate [of no_secrets_world "Exn ''FileNotFoundError''" start]
    failures_propagate [of cancelled_world "Exn ''AccessDeniedError''" start "()"]
    failures_propagate [of read_only_world "Exn ''PermissionError''" start "()"
      "(PyStr ''1//0gRt'', ''{refresh_token: 1//0gRt}'')"]
    failures_propagate [of disk_full_world "Exn ''OSError''" start "()"
      "(PyStr ''1//0gRt'', ''{refresh_token: 1//0gRt}'')"]
  by (simp add: no_secrets_world_flow cancelled_world_flow cancelled_world_creds
      read_only_world_flow read_only_world_creds read_only_world_open
      disk_full_world_flow disk_full_world_creds disk_full_world_open
      disk_full_world_write start_def)

text \<open>
  C5. The calls of a run are always an initial segment of the one fixed sequence
  construct, run the server, print, open, write, close: nothing is reordered or done
  twice. The flow is always constructed; the server is run once the flow exists; the
  token is printed and the file opened once the credential exists; and once the file is
  open the whole sequence has been performed.
\<close>

theorem linear_sequence_of_steps:
  "prefix (map step_of (events_of w s)) all_steps \<and>
   ConstructFlow \<in> set (map step_of (events_of w s)) \<and>
   (from_client_secrets_file w ''credentials.json'' SCOPES = Inr flow \<longrightarrow>
      RunServer \<in> set (map step_of (events_of w s))) \<and>
   (from_client_secrets_file w ''credentials.json'' SCOPES = Inr flow \<and>
    run_local_server w flow 0 = Inr creds \<longrightarrow>
      take 4 (map step_of (events_of w s)) = [ConstructFlow, RunServer, PrintToken, OpenFile]) \<and>
   (from_client_secrets_file w ''credentials.json'' SCOPES = Inr flow \<and>
    run_local_server w flow 0 = Inr creds \<and>
    open_error w ''token.json'' ''w'' = None \<longrightarrow>
      map step_of (events_of w s) = all_steps)"
proof (cases rule: debug_module_cases [of w])
  case (construct_fails e)
  then show ?thesis
    by (auto simp: events_construct_fails [OF construct_fails] all_steps_def)
next
  case (server_fails flow' e)
  then show ?thesis
    by (auto simp: events_server_fails [OF server_fails] all_steps_def)
next
  case (open_fails flow' creds' e)
  then show ?thesis
    by (auto simp: events_open_fails [OF open_fails] all_steps_def)
next
  case (write_fails flow' creds' e)
  then show ?thesis
    by (auto simp: events_opened [OF write_fails(1-3)] all_steps_def)
next
  case (succeeds flow' creds')
  then show ?thesis
    by (auto simp: events_opened [OF succeeds(1-3)] all_steps_def)
qed

theorem linear_sequence_of_steps_witness:
  "map step_of (events_of good_world start) =
     [ConstructFlow, RunServer, PrintToken, OpenFile, WriteFile, CloseFile] \<and>
   map step_of (events_of disk_full_world start) =
     [ConstructFlow, RunServer, PrintToken, OpenFile, WriteFile, CloseFile] \<and>
   take 4 (map step_of (events_of read_only_world start)) =
     [ConstructFlow, RunServer, PrintToken, OpenFile] \<and>
   RunServer \<in> set (map step_of (events_of cancelled_world start))"
  using
    linear_sequence_of_steps [of good_world start "()"
      "(PyStr ''1//0gRt'', ''{refresh_token: 1//0gRt}'')"]
    linear_sequence_of_steps [of disk_full_world start "()"
      "(PyStr ''1//0gRt'', ''{refresh_token: 1//0gRt}'')"]
    linear_sequence_of_steps [of read_only_world start "()"
      "(PyStr ''1//0gRt'', ''{refresh_token: 1//0gRt}'')"]
    linear_sequence_of_steps [of cancelled_world start "()"]
  by (simp add: good_world_flow good_world_creds good_world_open
      disk_full_world_flow disk_full_world_creds disk_full_world_open
      read_only_world_flow read_only_world_creds cancelled_world_flow all_steps_def)

text \<open>
  C6. Every run starts by calling the flow constructor, calls it once, and passes it the
  file name \<open>credentials.json\<close> and a scope list whose only element is the calendar URI.
  The run consults the constructor at this pair of arguments and at no other: changing
  what the constructor answers anywhere else changes nothing in the run, and an exception
  it raises at this pair is the outcome of the run.
\<close>

theorem constructor_arguments:
  "take 1 (events_of w s) =
     [FromClientSecretsFile ''credentials.json'' [''https://www.googleapis.com/auth/calendar'']] \<and>
   filter is_construct (events_of w s) =
     [FromClientSecretsFile ''credentials.json'' [''https://www.googleapis.com/auth/calendar'']] \<and>
   length SCOPES = 1 \<and>
   (g ''credentials.json'' [''https://www.googleapis.com/auth/calendar''] =
      from_client_secrets_file w ''credentials.json''
        [''https://www.googleapis.com/auth/calendar''] \<longrightarrow>
    debug_module (w\<lparr>from_client_secrets_file := g\<rparr>) s = debug_module w s) \<and>
   (from_client_secrets_file w ''credentials.json''
      [''https://www.googleapis.com/auth/calendar''] = Inl e \<longrightarrow>
    fst (debug_module w s) = Inl e)"
proof -
  have elsewhere:
    "debug_module (w\<lparr>from_client_secrets_file := g\<rparr>) s = debug_module w s"
    if "g ''credentials.json'' [''https://www.googleapis.com/auth/calendar''] =
        from_client_secrets_file w ''credentials.json''
          [''https://www.googleapis.com/auth/calendar'']"
    by (rule debug_module_cong) (simp_all add: that SCOPES_def)
  have raised: "fst (debug_module w s) = Inl e"
    if "from_client_secrets_file w ''credentials.json''
          [''https://www.googleapis.com/auth/calendar''] = Inl e"
  proof -
    from that have "from_client_secrets_file w ''credentials.json'' SCOPES = Inl e"
      by (simp add: SCOPES_def)
    then show ?thesis by (simp add: debug_module_construct_fails)
  qed
  have one: "length SCOPES = 1" by (simp add: SCOPES_def)
  from first_event [of w s] elsewhere raised one show ?thesis by blast
qed

theorem constructor_arguments_witness:
  "debug_module (good_world\<lparr>from_client_secrets_file := (\<lambda>p sc. Inr ())\<rparr>) start =
     debug_module good_world start \<and>
   fst (debug_module other_names_world start) = Inl (Exn ''FileNotFoundError'')"
proof -
  have same: "(\<lambda>p sc. Inr ()) ''credentials.json'' [''https://www.googleapis.com/auth/calendar''] =
      from_client_secrets_file good_world ''credentials.json''
        [''https://www.googleapis.com/auth/calendar'']"
    by (simp add: good_world_def)
  from constructor_arguments [of good_world start "\<lambda>p sc. Inr ()"] same
  have a: "debug_module (good_world\<lparr>from_client_secrets_file := (\<lambda>p sc. Inr ())\<rparr>) start =
     debug_module good_world start"
    by blast
  from constructor_arguments [of other_names_world start _ "Exn ''FileNotFoundError''"]
    other_names_world_flow
  have b: "fst (debug_module other_names_world start) = Inl (Exn ''FileNotFoundError'')"
    by blast
  from a b show ?thesis by blast
qed

text \<open>
  C7. No run leaves a file open. Once \<open>token.json\<close> has been opened, the run goes on
  with exactly the write and then the close, so the close is its last call, and this
  holds whether or not the write raised.
\<close>

theorem output_file_closed:
  "opened (snd (debug_module w s)) = opened s \<and>
   (from_client_secrets_file w ''credentials.json'' SCOPES = Inr flow \<and>
    run_local_server w flow 0 = Inr creds \<and>
    open_error w ''token.json'' ''w'' = None \<longrightarrow>
      drop 3 (events_of w s) =
        [Open ''token.json'' ''w'', Write ''token.json'' (to_json w creds), Close ''token.json''] \<and>
      last (trace (snd (debug_module w s))) = Close ''token.json'')"
proof (cases rule: debug_module_cases [of w])
  case (construct_fails e)
  then show ?thesis
    by (auto simp: debug_module_construct_fails [OF construct_fails])
next
  case (server_fails flow' e)
  then show ?thesis
    by (auto simp: debug_module_server_fails [OF server_fails])
next
  case (open_fails flow' creds' e)
  then show ?thesis
    by (auto simp: debug_module_open_fails [OF open_fails])
next
  case (write_fails flow' creds' e)
  then show ?thesis
    by (auto simp: debug_module_write_fails [OF write_fails] events_opened [OF write_fails(1-3)])
next
  case (succeeds flow' creds')
  then show ?thesis
    by (auto simp: debug_module_succeeds [OF succeeds] events_opened [OF succeeds(1-3)])
qed

theorem output_file_closed_witness:
  "write_error disk_full_world ''token.json'' ''{refresh_token: 1//0gRt}'' = Some (Exn ''OSError'') \<and>
   drop 3 (events_of disk_full_world start) =
     [Open ''token.json'' ''w'', Write ''token.json'' ''{refresh_token: 1//0gRt}'',
      Close ''token.json''] \<and>
   last (trace (snd (debug_module disk_full_world start))) = Close ''token.json'' \<and>
   opened (snd (debug_module disk_full_world start)) = []"
  using output_file_closed [of disk_full_world start "()"
      "(PyStr ''1//0gRt'', ''{refresh_token: 1//0gRt}'')"]
  by (simp add: disk_full_world_flow disk_full_world_creds disk_full_world_open
      disk_full_world_write disk_full_world_to_json start_def)




text \<open>
  C9. The only file the script opens is \<open>token.json\<close>, in mode \<open>w\<close>. Once that open is
  accepted, whatever the file held before is gone: after an accepted write the file is
  exactly the serialized credential, after a refused write it is empty; every other file
  is as it was.
\<close>

theorem token_file_overwritten:
  assumes "from_client_secrets_file w ''credentials.json'' SCOPES = Inr flow"
      and "run_local_server w flow 0 = Inr creds"
      and "open_error w ''token.json'' ''w'' = None"
  shows "filter (\<lambda>ev. step_of ev = OpenFile) (events_of w s) = [Open ''token.json'' ''w''] \<and>
         files (snd (debug_module w s)) ''token.json'' =
           Some (case write_error w ''token.json'' (to_json w creds) of
                   None \<Rightarrow> to_json w creds
                 | Some e \<Rightarrow> []) \<and>
         (\<forall>p. p \<noteq> ''token.json'' \<longrightarrow> files (snd (debug_module w s)) p = files s p)"
proof (cases "write_error w ''token.json'' (to_json w creds)")
  case None
  show ?thesis
    by (simp add: debug_module_succeeds [OF assms None] events_opened [OF assms] None)
next
  case (Some e)
  show ?thesis
    by (simp add: debug_module_write_fails [OF assms Some] events_opened [OF assms] Some)
qed

theorem token_file_overwritten_witness:
  "files start ''token.json'' = Some ''stale'' \<and>
   files (snd (debug_module good_world start)) ''token.json'' = Some ''{refresh_token: 1//0gRt}'' \<and>
   files (snd (debug_module good_world start)) ''notes.txt'' = Some ''keep'' \<and>
   filter (\<lambda>ev. step_of ev = OpenFile) (events_of good_world start) = [Open ''token.json'' ''w'']"
  using token_file_overwritten [OF good_world_flow good_world_creds good_world_open, of start]
  by (simp add: good_world_simps start_def)

text \<open>
  C10. The refresh token is not checked. When the flow returns a credential whose
  refresh token is \<open>None\<close> and the disk accepts the file, the run ends normally, having
  printed the label followed by \<open>None\<close> and written the whole serialized credential.
\<close>

theorem missing_refresh_token_not_checked:
  assumes "from_client_secrets_file w ''credentials.json'' SCOPES = Inr flow"
      and "run_local_server w flow 0 = Inr creds"
      and "refresh_token w creds = PyNone"
      and "open_error w ''token.json'' ''w'' = None"
      and "write_error w ''token.json'' (to_json w creds) = None"
  shows "fst (debug_module w s) = Inr () \<and>
         stdout (snd (debug_module w s)) = stdout s @ ''Refresh Token: None'' @ [CHR 0x0A] \<and>
         files (snd (debug_module w s)) ''token.json'' = Some (to_json w creds)"
  by (simp add: debug_module_succeeds [OF assms(1,2,4,5)] assms(3) print_line_def)

theorem missing_refresh_token_not_checked_witness:
  "refresh_token no_refresh_world (PyNone, ''{refresh_token: null}'') = PyNone \<and>
   fst (debug_module no_refresh_world start) = Inr () \<and>
   stdout (snd (debug_module no_refresh_world start)) = ''Refresh Token: None'' @ [CHR 0x0A] \<and>
   files (snd (debug_module no_refresh_world start)) ''token.json'' = Some ''{refresh_token: null}''"
proof -
  have none: "refresh_token no_refresh_world (PyNone, ''{refresh_token: null}'') = PyNone"
    by (simp add: no_refresh_world_simps)
  from missing_refresh_token_not_checked
    [OF no_refresh_world_flow no_refresh_world_creds none
      no_refresh_world_simps(1) no_refresh_world_simps(2), of start] none
  show ?thesis by (simp add: no_refresh_world_simps start_def)
qed

end
